theory Spec2Isabelle
  imports Main
begin

section \<open>JavaScript strings\<close>

text \<open>
  A JavaScript string is a sequence of UTF-16 code units. The model works with strings
  whose code units are below 256 (the Latin-1 range), so a \<^typ>\<open>char\<close> is one
  code unit and \<^typ>\<open>string\<close> is a JavaScript string. The white space of
  \<^verbatim>\<open>trim()\<close> and of the regular expression class \<^verbatim>\<open>\s\<close> in
  that range is TAB, LF, VT, FF, CR, SPACE and NBSP.
\<close>

definition is_ws :: "char \<Rightarrow> bool" where
  "is_ws c = (c \<in> set [CHR 0x09, CHR 0x0A, CHR 0x0B, CHR 0x0C, CHR 0x0D, CHR 0x20, CHR 0xA0])"

definition trim :: "string \<Rightarrow> string" where
  "trim s = rev (dropWhile is_ws (rev (dropWhile is_ws s)))"

definition startsWith :: "string \<Rightarrow> string \<Rightarrow> bool" where
  "startsWith s p = (take (length p) s = p)"

text \<open>\<^verbatim>\<open>s.substring(n)\<close> for \<open>0 \<le> n\<close>: past the end it is the empty string.\<close>

definition substring :: "string \<Rightarrow> nat \<Rightarrow> string" where
  "substring s n = drop n s"

text \<open>\<^verbatim>\<open>s.includes(m)\<close>: \<open>m\<close> occurs in \<open>s\<close> as a contiguous piece.\<close>

fun includes_str :: "string \<Rightarrow> string \<Rightarrow> bool" where
  "includes_str [] m = (m = [])"
| "includes_str (c # cs) m = (take (length m) (c # cs) = m \<or> includes_str cs m)"

text \<open>
  \<^verbatim>\<open>toLowerCase()\<close> on a code unit below 256: the letters A to Z and the
  capital letters U+00C0 to U+00DE (the multiplication sign U+00D7 apart) have a lower
  case form, 32 code units up; every other code unit stays.
\<close>

definition upper_case_units :: string where
  "upper_case_units = ''ABCDEFGHIJKLMNOPQRSTUVWXYZ'' @
     [CHR 0xC0, CHR 0xC1, CHR 0xC2, CHR 0xC3, CHR 0xC4, CHR 0xC5, CHR 0xC6,
      CHR 0xC7, CHR 0xC8, CHR 0xC9, CHR 0xCA, CHR 0xCB, CHR 0xCC, CHR 0xCD,
      CHR 0xCE, CHR 0xCF, CHR 0xD0, CHR 0xD1, CHR 0xD2, CHR 0xD3, CHR 0xD4,
      CHR 0xD5, CHR 0xD6, CHR 0xD8, CHR 0xD9, CHR 0xDA, CHR 0xDB, CHR 0xDC,
      CHR 0xDD, CHR 0xDE]"

definition lower_case_units :: string where
  "lower_case_units = ''abcdefghijklmnopqrstuvwxyz'' @
     [CHR 0xE0, CHR 0xE1, CHR 0xE2, CHR 0xE3, CHR 0xE4, CHR 0xE5, CHR 0xE6,
      CHR 0xE7, CHR 0xE8, CHR 0xE9, CHR 0xEA, CHR 0xEB, CHR 0xEC, CHR 0xED,
      CHR 0xEE, CHR 0xEF, CHR 0xF0, CHR 0xF1, CHR 0xF2, CHR 0xF3, CHR 0xF4,
      CHR 0xF5, CHR 0xF6, CHR 0xF8, CHR 0xF9, CHR 0xFA, CHR 0xFB, CHR 0xFC,
      CHR 0xFD, CHR 0xFE]"

definition toLowerCase_char :: "char \<Rightarrow> char" where
  "toLowerCase_char c =
     (case map_of (zip upper_case_units lower_case_units) c of Some l \<Rightarrow> l | None \<Rightarrow> c)"

definition toLowerCase :: "string \<Rightarrow> string" where
  "toLowerCase s = map toLowerCase_char s"

text \<open>
  \<^verbatim>\<open>s.split(/\s+/)\<close>: the pieces between the maximal runs of white space. A
  string that starts or ends with white space gives an empty first or last piece, and
  the empty string gives one empty piece.
\<close>

function split_ws :: "string \<Rightarrow> string list" where
  "split_ws s =
     (let w = takeWhile (\<lambda>c. \<not> is_ws c) s;
          r = dropWhile (\<lambda>c. \<not> is_ws c) s
      in if r = [] then [w] else w # split_ws (dropWhile is_ws r))"
  by pat_completeness auto
termination
proof (relation "measure length")
  show "wf (measure length)" by simp
next
  fix s :: string and w r
  assume r: "r = dropWhile (\<lambda>c. \<not> is_ws c) s" and ne: "r \<noteq> []"
  from ne obtain c cs where rc: "r = c # cs" by (cases r) auto
  have "length (dropWhile is_ws r) \<le> length r" by (rule length_dropWhile_le)
  moreover have "is_ws c" using r rc by (metis hd_dropWhile list.sel(1) ne)
  then have "length (dropWhile is_ws r) < length r" using rc
    by (simp add: le_imp_less_Suc length_dropWhile_le)
  moreover have "length r \<le> length s" using r by (simp add: length_dropWhile_le)
  ultimately show "(dropWhile is_ws r, s) \<in> measure length" by simp
qed

declare split_ws.simps [simp del]

text \<open>\<^verbatim>\<open>xs.join(sep)\<close> on an array of strings.\<close>

fun join :: "string \<Rightarrow> string list \<Rightarrow> string" where
  "join sep [] = []"
| "join sep [x] = x"
| "join sep (x # y # ys) = x @ sep @ join sep (y # ys)"

section \<open>The model alias table\<close>

text \<open>
  \<^verbatim>\<open>loadModelMap\<close> returns the object that \<^verbatim>\<open>JSON.parse\<close> builds from
  \<^verbatim>\<open>model-map.json\<close>: its own properties, in the order of
  \<^verbatim>\<open>Object.keys\<close>, with string values, on top of
  \<^verbatim>\<open>Object.prototype\<close>. Reading \<^verbatim>\<open>modelMap[k]\<close> gives the own
  property when there is one, else the property that the prototype has under that name,
  else \<^verbatim>\<open>undefined\<close>.
\<close>

type_synonym model_map = "(string \<times> string) list"

datatype jsval = Undefined | Str string | Inherited string

definition object_prototype_names :: "string list" where
  "object_prototype_names =
     [''constructor'', ''__defineGetter__'', ''__defineSetter__'', ''hasOwnProperty'',
      ''__lookupGetter__'', ''__lookupSetter__'', ''isPrototypeOf'',
      ''propertyIsEnumerable'', ''toString'', ''valueOf'', ''__proto__'',
      ''toLocaleString'']"

definition get_prop :: "model_map \<Rightarrow> string \<Rightarrow> jsval" where
  "get_prop m k =
     (case map_of m k of
        Some v \<Rightarrow> Str v
      | None \<Rightarrow> if k \<in> set object_prototype_names then Inherited k else Undefined)"

text \<open>Truthiness: the empty string and \<^verbatim>\<open>undefined\<close> are falsy, a function or object is truthy.\<close>

fun truthy :: "jsval \<Rightarrow> bool" where
  "truthy Undefined = False"
| "truthy (Str s) = (s \<noteq> [])"
| "truthy (Inherited k) = True"

section \<open>Command parsing (main, lines 244 to 264)\<close>

record parsed_command =
  modelAlias :: string
  modelIdentifier :: jsval
  prompt :: string

definition commandContent :: "string \<Rightarrow> string" where
  "commandContent commentText = trim (substring commentText 4)"

definition parts :: "string \<Rightarrow> string list" where
  "parts commentText = split_ws (commandContent commentText)"

text \<open>
  \<^verbatim>\<open>parts[0].toLowerCase()\<close>: \<^const>\<open>split_ws\<close> never returns the empty
  array (lemma \<open>split_ws_not_Nil\<close> below), so the first piece is always there.
\<close>

definition potentialAlias :: "string \<Rightarrow> string" where
  "potentialAlias commentText = toLowerCase (hd (parts commentText))"

definition parseCommand :: "model_map \<Rightarrow> string \<Rightarrow> parsed_command" where
  "parseCommand modelMap commentText =
     (if truthy (get_prop modelMap (potentialAlias commentText))
      then \<lparr>modelAlias = potentialAlias commentText,
            modelIdentifier = get_prop modelMap (potentialAlias commentText),
            prompt = join '' '' (tl (parts commentText))\<rparr>
      else \<lparr>modelAlias = ''default'',
            modelIdentifier = get_prop modelMap ''default'',
            prompt = commandContent commentText\<rparr>)"

section \<open>Errors and collaborators\<close>

text \<open>
  A thrown JavaScript error, as far as the script looks at it: its
  \<^verbatim>\<open>message\<close> and its \<^verbatim>\<open>status\<close> (the HTTP status that an
  Octokit request error carries; an \<^verbatim>\<open>Error\<close> made by the script has none).
\<close>

record js_error =
  message :: string
  status :: "nat option"

record comment =
  c_id :: int
  c_login :: string
  c_created_at :: string
  c_body :: string

record issue =
  i_title :: string
  i_body :: "string option"

text \<open>
  The comment store behind Octokit, for the one issue of the run: what
  \<^verbatim>\<open>issues.get\<close> answers, the thread of comments, and the fault, if any, with
  which the store rejects a list, update or create request. A created comment gets a
  fresh id, the login the token acts as and the store's time stamp.
\<close>

record github =
  gh_issue :: "js_error + issue"
  gh_thread :: "comment list"
  gh_list_fault :: "js_error option"
  gh_update_fault :: "js_error option"
  gh_create_fault :: "js_error option"
  gh_actor :: string
  gh_clock :: string

definition not_found :: js_error where
  "not_found = \<lparr>message = ''Not Found'', status = Some 404\<rparr>"

text \<open>\<^verbatim>\<open>issues.listComments\<close> without paging options: the first page, 30 comments.\<close>

definition listComments :: "github \<Rightarrow> js_error + comment list" where
  "listComments g =
     (case gh_list_fault g of Some e \<Rightarrow> Inl e | None \<Rightarrow> Inr (take 30 (gh_thread g)))"

definition updateComment :: "github \<Rightarrow> int \<Rightarrow> string \<Rightarrow> js_error + github" where
  "updateComment g i body =
     (case gh_update_fault g of
        Some e \<Rightarrow> Inl e
      | None \<Rightarrow>
          if i \<in> set (map c_id (gh_thread g))
          then Inr (g\<lparr>gh_thread :=
                 map (\<lambda>c. if c_id c = i then c\<lparr>c_body := body\<rparr> else c) (gh_thread g)\<rparr>)
          else Inl not_found)"

definition fresh_id :: "comment list \<Rightarrow> int" where
  "fresh_id cs = 1 + fold max (map c_id cs) 0"

definition new_comment :: "github \<Rightarrow> string \<Rightarrow> comment" where
  "new_comment g body =
     \<lparr>c_id = fresh_id (gh_thread g), c_login = gh_actor g,
      c_created_at = gh_clock g, c_body = body\<rparr>"

definition createComment :: "github \<Rightarrow> string \<Rightarrow> js_error + github" where
  "createComment g body =
     (case gh_create_fault g of
        Some e \<Rightarrow> Inl e
      | None \<Rightarrow> Inr (g\<lparr>gh_thread := gh_thread g @ [new_comment g body]\<rparr>))"

section \<open>postCommentToIssue\<close>

text \<open>
  The id is \<^verbatim>\<open>number|null\<close>; \<open>None\<close> is \<^verbatim>\<open>null\<close> (and
  \<^verbatim>\<open>NaN\<close>, which is as falsy). The test \<^verbatim>\<open>if (processingCommentId)\<close>
  also sends the id 0 to the else branch. A failed update is caught and logged, and the
  function goes on to create a comment; a failed create rejects the call.
\<close>

definition create_fallback :: "string \<Rightarrow> github \<Rightarrow> (js_error + unit) \<times> github" where
  "create_fallback body g =
     (case createComment g body of Inl e \<Rightarrow> (Inl e, g) | Inr g' \<Rightarrow> (Inr (), g'))"

definition postCommentToIssue ::
  "string \<Rightarrow> int option \<Rightarrow> github \<Rightarrow> (js_error + unit) \<times> github" where
  "postCommentToIssue body processingCommentId g =
     (case processingCommentId of
        None \<Rightarrow> create_fallback body g
      | Some i \<Rightarrow>
          if i = 0 then create_fallback body g
          else (case updateComment g i body of
                  Inr g' \<Rightarrow> (Inr (), g')
                | Inl e \<Rightarrow> create_fallback body g))"

section \<open>getIssueContext\<close>

datatype role = User | UserPrompt | Assistant

fun role_name :: "role \<Rightarrow> string" where
  "role_name User = ''user''"
| "role_name UserPrompt = ''user_prompt''"
| "role_name Assistant = ''assistant''"

record conversation_entry =
  role :: role
  author :: string
  timestamp :: string
  content :: string

definition ai_marker :: string where
  "ai_marker = ''<!-- AI_RESPONSE -->''"

text \<open>The class \<^verbatim>\<open>[\w-]\<close>.\<close>

definition is_word :: "char \<Rightarrow> bool" where
  "is_word c =
     (c \<in> set ''ABCDEFGHIJKLMNOPQRSTUVWXYZabcdefghijklmnopqrstuvwxyz0123456789_-'')"

text \<open>
  \<^verbatim>\<open>s.replace(/^@[\w-]+\s*\n*/, '')\<close>: an at sign at the very start with at
  least one name character after it goes, with the name and all white space that
  follows (the greedy \<^verbatim>\<open>\s*\<close> leaves no line feed to \<^verbatim>\<open>\n*\<close>).
\<close>

definition strip_mention :: "string \<Rightarrow> string" where
  "strip_mention s =
     (case s of
        [] \<Rightarrow> []
      | c # rest \<Rightarrow>
          if c = CHR ''@'' \<and> takeWhile is_word rest \<noteq> []
          then dropWhile is_ws (dropWhile is_word rest) else s)"

text \<open>
  \<^verbatim>\<open>s.replace(/\n*<!-- AI_RESPONSE -->\s*$/, '')\<close>: the pattern matches only
  when the marker is followed by nothing but white space up to the end of the string; then
  the marker goes, with that white space and with the line feeds right before the marker.
\<close>

definition strip_marker :: "string \<Rightarrow> string" where
  "strip_marker s =
     (let t = rev (dropWhile is_ws (rev s));
          n = length t - length ai_marker
      in if length ai_marker \<le> length t \<and> drop n t = ai_marker
         then rev (dropWhile (\<lambda>c. c = CHR 0x0A) (rev (take n t)))
         else s)"

text \<open>The callback of \<^verbatim>\<open>comments.map\<close> (lines 196 to 221).\<close>

definition isUserPrompt :: "comment \<Rightarrow> bool" where
  "isUserPrompt c = startsWith (trim (c_body c)) ''/ai ''"

definition isAIResponse :: "comment \<Rightarrow> bool" where
  "isAIResponse c = includes_str (c_body c) ai_marker"

definition conversationEntry :: "comment \<Rightarrow> conversation_entry" where
  "conversationEntry c =
     (if isUserPrompt c
      then \<lparr>role = UserPrompt, author = c_login c, timestamp = c_created_at c,
            content = trim (substring (c_body c) 4)\<rparr>
      else if isAIResponse c
      then \<lparr>role = Assistant, author = c_login c, timestamp = c_created_at c,
            content = trim (strip_marker (strip_mention (c_body c)))\<rparr>
      else \<lparr>role = User, author = c_login c, timestamp = c_created_at c,
            content = c_body c\<rparr>)"

subsection \<open>JSON.stringify(conversationHistory, null, 2)\<close>

definition hex_digit :: "nat \<Rightarrow> char" where
  "hex_digit n = ''0123456789abcdef'' ! (n mod 16)"

definition json_char :: "char \<Rightarrow> string" where
  "json_char c =
     (if c = CHR 0x22 then [CHR 0x5C, CHR 0x22]
      else if c = CHR 0x5C then [CHR 0x5C, CHR 0x5C]
      else if c = CHR 0x08 then [CHR 0x5C, CHR ''b'']
      else if c = CHR 0x0C then [CHR 0x5C, CHR ''f'']
      else if c = CHR 0x0A then [CHR 0x5C, CHR ''n'']
      else if c = CHR 0x0D then [CHR 0x5C, CHR ''r'']
      else if c = CHR 0x09 then [CHR 0x5C, CHR ''t'']
      else if (of_char c :: nat) < 32
      then [CHR 0x5C, CHR ''u'', CHR ''0'', CHR ''0'',
            hex_digit (of_char c div 16), hex_digit (of_char c)]
      else [c])"

definition json_string :: "string \<Rightarrow> string" where
  "json_string s = [CHR 0x22] @ concat (map json_char s) @ [CHR 0x22]"

definition json_member :: "string \<Rightarrow> string \<Rightarrow> string" where
  "json_member k v = ''    '' @ json_string k @ '': '' @ json_string v"

definition json_entry :: "conversation_entry \<Rightarrow> string" where
  "json_entry e =
     ''  {'' @ [CHR 0x0A] @
     join ('','' @ [CHR 0x0A])
       [json_member ''role'' (role_name (role e)),
        json_member ''author'' (author e),
        json_member ''timestamp'' (timestamp e),
        json_member ''content'' (content e)] @
     [CHR 0x0A] @ ''  }''"

definition JSON_stringify :: "conversation_entry list \<Rightarrow> string" where
  "JSON_stringify es =
     (if es = [] then ''[]''
      else ''['' @ [CHR 0x0A] @ join ('','' @ [CHR 0x0A]) (map json_entry es) @
           [CHR 0x0A] @ '']'')"

text \<open>Lines 193 to 224: the text of the conversation history.\<close>

definition commentsText :: "comment list \<Rightarrow> string" where
  "commentsText comments =
     (if length comments > 0 then JSON_stringify (map conversationEntry comments) else [])"

record issue_context =
  ctx_title :: string
  ctx_body :: string
  ctx_comments :: string

definition issueBody :: "issue \<Rightarrow> string" where
  "issueBody i =
     (case i_body i of
        None \<Rightarrow> ''This issue has no description.''
      | Some b \<Rightarrow> if b = [] then ''This issue has no description.'' else b)"

definition getIssueContext :: "github \<Rightarrow> js_error + issue_context" where
  "getIssueContext g =
     (case gh_issue g of
        Inl e \<Rightarrow> Inl e
      | Inr i \<Rightarrow>
          (case listComments g of
             Inl e \<Rightarrow> Inl e
           | Inr comments \<Rightarrow>
               Inr \<lparr>ctx_title = i_title i, ctx_body = issueBody i,
                    ctx_comments = commentsText comments\<rparr>))"

section \<open>The run's environment\<close>

text \<open>
  What one run reads and never writes: \<^verbatim>\<open>process.env\<close>, the files that
  \<^verbatim>\<open>fs.existsSync\<close> and \<^verbatim>\<open>fs.readFileSync\<close> see (a path with no
  file is \<open>None\<close>), the path that \<^verbatim>\<open>path.join\<close> gives for the default
  prompt file, what \<^verbatim>\<open>model-map.json\<close> holds (\<open>None\<close> when the file is
  missing, an error when \<^verbatim>\<open>JSON.parse\<close> rejects it), and the answer of the
  model endpoint to a request.
\<close>

record chat_request =
  system_content :: string
  user_content :: string
  model :: jsval

datatype ai_result = Completion string | ErrorResponse string | Rejected js_error

record environment =
  process_env :: "string \<Rightarrow> string option"
  files :: "string \<Rightarrow> string option"
  defaultPath :: string
  model_map_json :: "(js_error + model_map) option"
  endpoint :: "chat_request \<Rightarrow> ai_result"

text \<open>Truthiness of an environment variable: set and not empty.\<close>

fun truthy_str :: "string option \<Rightarrow> bool" where
  "truthy_str None = False"
| "truthy_str (Some s) = (s \<noteq> [])"

text \<open>\<^verbatim>\<open>a || b\<close> on strings that may be undefined.\<close>

definition or_else :: "string option \<Rightarrow> string option \<Rightarrow> string option" where
  "or_else a b = (if truthy_str a then a else b)"

text \<open>
  \<^verbatim>\<open>parseInt(s, 10)\<close>: leading white space is skipped, one sign is read, then
  the longest run of decimal digits; with no digit the result is \<^verbatim>\<open>NaN\<close>,
  here \<open>None\<close>. (Values are exact below \<open>2 ^ 53\<close>, far above any comment id.)
\<close>

definition is_digit :: "char \<Rightarrow> bool" where
  "is_digit c = (c \<in> set ''0123456789'')"

definition digit_value :: "char \<Rightarrow> int" where
  "digit_value c = int (of_char c) - 48"

definition parseInt :: "string \<Rightarrow> int option" where
  "parseInt s =
     (let t = dropWhile is_ws s;
          neg = (t \<noteq> [] \<and> hd t = CHR ''-'');
          u = (if t \<noteq> [] \<and> (hd t = CHR ''-'' \<or> hd t = CHR ''+'') then tl t else t);
          ds = takeWhile is_digit u
      in if ds = [] then None
         else Some ((if neg then - 1 else 1) * foldl (\<lambda>a d. 10 * a + digit_value d) 0 ds))"

text \<open>A number or \<^verbatim>\<open>NaN\<close> is truthy when it is a number other than 0.\<close>

fun truthy_num :: "int option \<Rightarrow> bool" where
  "truthy_num None = False"
| "truthy_num (Some n) = (n \<noteq> 0)"

subsection \<open>Validation (lines 31 to 39)\<close>

definition ai_token :: "environment \<Rightarrow> string option" where
  "ai_token env = or_else (process_env env ''GH_AI_TOKEN'') (process_env env ''GITHUB_TOKEN'')"

definition issueNumber :: "environment \<Rightarrow> int option" where
  "issueNumber env =
     (case process_env env ''ISSUE_NUMBER'' of None \<Rightarrow> None | Some s \<Rightarrow> parseInt s)"

definition config_valid :: "environment \<Rightarrow> bool" where
  "config_valid env =
     (truthy_str (ai_token env) \<and>
      truthy_str (process_env env ''GITHUB_TOKEN'') \<and>
      truthy_str (process_env env ''COMMENT_BODY'') \<and>
      truthy_num (issueNumber env) \<and>
      truthy_str (process_env env ''REPO_OWNER'') \<and>
      truthy_str (process_env env ''REPO_NAME''))"

definition commentBody :: "environment \<Rightarrow> string" where
  "commentBody env = (case process_env env ''COMMENT_BODY'' of None \<Rightarrow> [] | Some s \<Rightarrow> s)"

subsection \<open>getSystemPrompt and loadModelMap\<close>

definition defaultPrompt :: string where
  "defaultPrompt = ''You are a helpful assistant integrated into GitHub issues. The user is commenting on an issue. Provide your answer in the context of the original issue description provided below.''"

definition getSystemPrompt :: "environment \<Rightarrow> string" where
  "getSystemPrompt env =
     (case (if truthy_str (process_env env ''AI_SYSTEM_PROMPT_PATH'')
            then files env (the (process_env env ''AI_SYSTEM_PROMPT_PATH'')) else None) of
        Some text \<Rightarrow> text
      | None \<Rightarrow>
          (case files env (defaultPath env) of
             Some text \<Rightarrow> text
           | None \<Rightarrow>
               (if truthy_str (process_env env ''AI_SYSTEM_PROMPT'')
                then the (process_env env ''AI_SYSTEM_PROMPT'')
                else defaultPrompt)))"

definition loadModelMap :: "environment \<Rightarrow> js_error + model_map" where
  "loadModelMap env =
     (case model_map_json env of
        None \<Rightarrow>
          Inl \<lparr>message = ''CRITICAL: model-map.json not found in the action directory.'',
               status = None\<rparr>
      | Some parsed \<Rightarrow> parsed)"

section \<open>getAiResponse\<close>

text \<open>
  The state that a run changes: the comment store, and the requests that reached the
  model endpoint, oldest first.
\<close>

record world =
  store :: github
  requests :: "chat_request list"

definition systemMessage :: "string \<Rightarrow> issue_context \<Rightarrow> string" where
  "systemMessage systemPrompt issueContext =
     systemPrompt @ [CHR 0x0A, CHR 0x0A] @
     ''--- Issue Context ---'' @ [CHR 0x0A] @
     ''Title: '' @ ctx_title issueContext @ [CHR 0x0A] @
     ''Body: '' @ ctx_body issueContext @ [CHR 0x0A, CHR 0x0A] @
     ''--- Conversation History ---'' @ [CHR 0x0A] @
     ''The following is a JSON array of the conversation history on this issue:'' @ [CHR 0x0A] @
     ''- '' @ json_string ''role'' @ '': '' @ json_string ''user'' @
       '' = regular user comment'' @ [CHR 0x0A] @
     ''- '' @ json_string ''role'' @ '': '' @ json_string ''user_prompt'' @
       '' = user'' @ [CHR 0x27] @ ''s AI prompt (started with /ai)'' @ [CHR 0x0A] @
     ''- '' @ json_string ''role'' @ '': '' @ json_string ''assistant'' @
       '' = your previous AI responses'' @ [CHR 0x0A, CHR 0x0A] @
     (if ctx_comments issueContext = [] then ''[]'' else ctx_comments issueContext) @
     [CHR 0x0A] @ ''--- End Context ---''"

text \<open>
  The request carries the trimmed system message, the prompt and the model identifier
  (and the two fixed sampling parameters, left out here). An error response makes the
  call throw an \<^verbatim>\<open>Error\<close> with the backend's message; there is no retry.
\<close>

definition getAiResponse ::
  "environment \<Rightarrow> string \<Rightarrow> issue_context \<Rightarrow> string \<Rightarrow> jsval \<Rightarrow> world \<Rightarrow>
     (js_error + string) \<times> world" where
  "getAiResponse env userPrompt issueContext systemPrompt modelId w =
     (let request = \<lparr>system_content = trim (systemMessage systemPrompt issueContext),
                      user_content = userPrompt, model = modelId\<rparr>;
          w' = w\<lparr>requests := requests w @ [request]\<rparr>
      in case endpoint env request of
           Rejected e \<Rightarrow> (Inl e, w')
         | ErrorResponse msg \<Rightarrow>
             (Inl \<lparr>message = ''AI API call failed: '' @ msg, status = None\<rparr>, w')
         | Completion text \<Rightarrow> (Inr text, w'))"

section \<open>main\<close>

definition availableAliases :: "model_map \<Rightarrow> string" where
  "availableAliases modelMap =
     ''`'' @ join ''`, `'' (filter (\<lambda>k. k \<noteq> ''default'') (map fst modelMap)) @ ''`''"

definition no_model_message :: "model_map \<Rightarrow> string" where
  "no_model_message modelMap =
     ''I could not find a model to use. Please specify one or ensure a '' @
     json_string ''default'' @ '' is configured.'' @ [CHR 0x0A, CHR 0x0A] @
     ''Available models: '' @ availableAliases modelMap"

definition usage_message :: "model_map \<Rightarrow> string" where
  "usage_message modelMap =
     ''It looks like you used the `/ai` command without a question. Please provide a prompt.'' @
     [CHR 0x0A, CHR 0x0A] @ ''**Usage:**'' @ [CHR 0x0A] @
     ''* `/ai <your prompt>` (uses default model)'' @ [CHR 0x0A] @
     ''* `/ai <model> <your prompt>`'' @ [CHR 0x0A, CHR 0x0A] @
     ''**Available models:** '' @ availableAliases modelMap"

definition commentAuthor :: "environment \<Rightarrow> string" where
  "commentAuthor env = the (or_else (process_env env ''COMMENT_AUTHOR'') (Some ''User''))"

definition responseWithTag :: "environment \<Rightarrow> string \<Rightarrow> string" where
  "responseWithTag env aiResponse =
     ''@'' @ commentAuthor env @ [CHR 0x0A, CHR 0x0A] @ aiResponse @
     [CHR 0x0A, CHR 0x0A] @ ai_marker"

definition processingCommentId :: "environment \<Rightarrow> int option" where
  "processingCommentId env =
     (if truthy_str (process_env env ''PROCESSING_COMMENT_ID'')
      then parseInt (the (process_env env ''PROCESSING_COMMENT_ID'')) else None)"

definition post :: "string \<Rightarrow> int option \<Rightarrow> world \<Rightarrow> (js_error + unit) \<times> world" where
  "post body pid w =
     (case postCommentToIssue body pid (store w) of (r, g) \<Rightarrow> (r, w\<lparr>store := g\<rparr>))"

text \<open>
  \<^verbatim>\<open>main\<close> returns (\<open>Inr ()\<close>) or rejects with the error thrown (\<open>Inl\<close>),
  and leaves the world as the awaited calls made it.
\<close>

definition generate :: "environment \<Rightarrow> parsed_command \<Rightarrow> world \<Rightarrow> (js_error + unit) \<times> world" where
  "generate env cmd w =
     (case getIssueContext (store w) of
        Inl e \<Rightarrow> (Inl e, w)
      | Inr issueContext \<Rightarrow>
          (case getAiResponse env (prompt cmd) issueContext (getSystemPrompt env)
                  (modelIdentifier cmd) w of
             (Inl e, w') \<Rightarrow> (Inl e, w')
           | (Inr aiResponse, w') \<Rightarrow>
               post (responseWithTag env aiResponse) (processingCommentId env) w'))"

definition main :: "environment \<Rightarrow> world \<Rightarrow> (js_error + unit) \<times> world" where
  "main env w =
     (let commentText = trim (commentBody env)
      in if \<not> startsWith commentText ''/ai '' then (Inr (), w)
         else (case loadModelMap env of
                 Inl e \<Rightarrow> (Inl e, w)
               | Inr modelMap \<Rightarrow>
                   (let cmd = parseCommand modelMap commentText
                    in if \<not> truthy (modelIdentifier cmd)
                       then post (no_model_message modelMap) None w
                       else if prompt cmd = []
                       then post (usage_message modelMap) None w
                       else generate env cmd w)))"

section \<open>The top-level handler and the whole script\<close>

text \<open>
  How a run ends: the world it leaves, the bodies of the comments whose posting was
  started and not awaited before the process ended, and the exit status.
\<close>

record outcome =
  final :: world
  unawaited :: "string list"
  exit_code :: nat

definition caution_message :: "js_error \<Rightarrow> string" where
  "caution_message err =
     ''> [!CAUTION]'' @ [CHR 0x0A] @
     ''> Sorry, I encountered an error and could not process your request:'' @ [CHR 0x0A] @
     ''> `'' @ message err @ ''`''"

text \<open>
  Lines 311 to 325. For an error whose status is 404 the handler posts nothing. For any
  other error it calls \<^verbatim>\<open>postCommentToIssue\<close> with the caution message and no
  comment id, does not await the promise, and calls \<^verbatim>\<open>process.exit(1)\<close> in the
  same synchronous step. \<^verbatim>\<open>process.exit\<close> ends the process without running
  the asynchronous work that is pending, so the request of that post is not carried out:
  the comment store stays as \<^verbatim>\<open>main\<close> left it, and the rejection callback that
  would log a failed post never runs.
\<close>

definition handler :: "js_error \<Rightarrow> world \<Rightarrow> outcome" where
  "handler err w =
     \<lparr>final = w,
      unawaited = (if status err = Some 404 then [] else [caution_message err]),
      exit_code = 1\<rparr>"

definition script :: "environment \<Rightarrow> world \<Rightarrow> outcome" where
  "script env w =
     (if \<not> config_valid env then \<lparr>final = w, unawaited = [], exit_code = 1\<rparr>
      else (case main env w of
              (Inr u, w') \<Rightarrow> \<lparr>final = w', unawaited = [], exit_code = 0\<rparr>
            | (Inl err, w') \<Rightarrow> handler err w'))"

section \<open>The spec's wording, and sample inputs\<close>

text \<open>
  The spec's ``remainder of the text'' after the first token: what follows the first
  token and the white space behind it, as typed.
\<close>

definition spec_remainder :: "string \<Rightarrow> string" where
  "spec_remainder commentText =
     dropWhile is_ws (dropWhile (\<lambda>c. \<not> is_ws c) (commandContent commentText))"

text \<open>The spec's ``matches a known alias (case-insensitive)'': equal up to letter case.\<close>

definition spec_alias_match :: "model_map \<Rightarrow> string \<Rightarrow> bool" where
  "spec_alias_match modelMap token =
     (toLowerCase token \<in> set (map (toLowerCase \<circ> fst) modelMap))"

definition example_map :: model_map where
  "example_map =
     [(''gpt'', ''openai/gpt-4o''), (''claude'', ''anthropic/claude-3.5-sonnet''),
      (''default'', ''openai/gpt-4o'')]"

definition upper_key_map :: model_map where
  "upper_key_map = [(''GPT'', ''openai/gpt-4o''), (''default'', ''openai/gpt-4o'')]"

definition default_only_map :: model_map where
  "default_only_map = [(''default'', ''openai/gpt-4o'')]"

definition sample_issue :: issue where
  "sample_issue = \<lparr>i_title = ''Build fails'', i_body = None\<rparr>"

definition sample_thread :: "comment list" where
  "sample_thread =
     [\<lparr>c_id = 11, c_login = ''alice'', c_created_at = ''2025-01-01T10:00:00Z'',
       c_body = ''It breaks on main.''\<rparr>,
      \<lparr>c_id = 12, c_login = ''bob'', c_created_at = ''2025-01-01T10:05:00Z'',
       c_body = ''/ai why?''\<rparr>]"

definition sample_store :: github where
  "sample_store =
     \<lparr>gh_issue = Inr sample_issue, gh_thread = sample_thread, gh_list_fault = None,
      gh_update_fault = None, gh_create_fault = None, gh_actor = ''github-actions[bot]'',
      gh_clock = ''2025-01-01T10:06:00Z''\<rparr>"

definition other_store :: github where
  "other_store =
     \<lparr>gh_issue = Inr \<lparr>i_title = ''Renamed'', i_body = Some ''Now with a description.''\<rparr>,
      gh_thread = sample_thread, gh_list_fault = None,
      gh_update_fault = Some \<lparr>message = ''Forbidden'', status = Some 403\<rparr>,
      gh_create_fault = None, gh_actor = ''someone-else'',
      gh_clock = ''2030-12-31T23:59:59Z''\<rparr>"

definition missing_issue_store :: github where
  "missing_issue_store = sample_store\<lparr>gh_issue := Inl not_found\<rparr>"

definition updated_store :: github where
  "updated_store =
     sample_store\<lparr>gh_thread :=
       [\<lparr>c_id = 11, c_login = ''alice'', c_created_at = ''2025-01-01T10:00:00Z'',
         c_body = ''It breaks on main.''\<rparr>,
        \<lparr>c_id = 12, c_login = ''bob'', c_created_at = ''2025-01-01T10:05:00Z'',
         c_body = ''answer''\<rparr>]\<rparr>"

definition created_store :: "string \<Rightarrow> github" where
  "created_store body =
     sample_store\<lparr>gh_thread := sample_thread @
       [\<lparr>c_id = 13, c_login = ''github-actions[bot]'',
         c_created_at = ''2025-01-01T10:06:00Z'', c_body = body\<rparr>]\<rparr>"

definition sample_world :: world where
  "sample_world = \<lparr>store = sample_store, requests = []\<rparr>"

definition missing_issue_world :: world where
  "missing_issue_world = \<lparr>store = missing_issue_store, requests = []\<rparr>"

definition always :: "ai_result \<Rightarrow> chat_request \<Rightarrow> ai_result" where
  "always r request = r"

definition no_files :: "string \<Rightarrow> string option" where
  "no_files path = None"

definition sample_env :: "string \<Rightarrow> model_map \<Rightarrow> ai_result \<Rightarrow> environment" where
  "sample_env body modelMap answer =
     \<lparr>process_env =
        map_of [(''GITHUB_TOKEN'', ''t''), (''COMMENT_BODY'', body), (''ISSUE_NUMBER'', ''7''),
                (''REPO_OWNER'', ''o''), (''REPO_NAME'', ''r'')],
      files = no_files, defaultPath = ''.github/prompts/prompt.md'',
      model_map_json = Some (Inr modelMap), endpoint = always answer\<rparr>"

section \<open>Facts about the string operations\<close>

lemma split_ws_unfold_last:
  "dropWhile (\<lambda>c. \<not> is_ws c) s = [] \<Longrightarrow> split_ws s = [takeWhile (\<lambda>c. \<not> is_ws c) s]"
  by (subst split_ws.simps) (simp only: Let_def if_True simp_thms)

lemma split_ws_unfold_more:
  "dropWhile (\<lambda>c. \<not> is_ws c) s \<noteq> [] \<Longrightarrow>
   split_ws s = takeWhile (\<lambda>c. \<not> is_ws c) s #
                split_ws (dropWhile is_ws (dropWhile (\<lambda>c. \<not> is_ws c) s))"
  by (subst split_ws.simps) (simp only: Let_def if_False simp_thms)

lemma split_ws_not_Nil: "split_ws s \<noteq> []"
  by (cases "dropWhile (\<lambda>c. \<not> is_ws c) s = []")
     (simp_all only: split_ws_unfold_last split_ws_unfold_more list.simps simp_thms)

lemma split_ws_nonempty_pieces:
  "s \<noteq> [] \<Longrightarrow> \<not> is_ws (hd s) \<Longrightarrow> \<not> is_ws (last s) \<Longrightarrow> p \<in> set (split_ws s) \<Longrightarrow> p \<noteq> []"
proof (induction s rule: split_ws.induct)
  case (1 s)
  let ?w = "takeWhile (\<lambda>c. \<not> is_ws c) s"
  let ?r = "dropWhile (\<lambda>c. \<not> is_ws c) s"
  from "1.prems"(1,2) have w: "?w \<noteq> []" by (cases s) simp_all
  show ?case
  proof (cases "?r = []")
    case True
    then have "split_ws s = [?w]" by (rule split_ws_unfold_last)
    with "1.prems"(4) w show ?thesis by simp
  next
    case False
    let ?s' = "dropWhile is_ws ?r"
    have eq: "split_ws s = ?w # split_ws ?s'"
      using False by (rule split_ws_unfold_more)
    have s: "?w @ ?r = s" by (rule takeWhile_dropWhile_id)
    have "last (?w @ ?r) = last ?r" using False by (rule last_appendR)
    then have last_r: "last ?r = last s" by (simp only: s)
    have ne: "?s' \<noteq> []"
    proof
      assume "?s' = []"
      then have all: "\<forall>c\<in>set ?r. is_ws c" by (simp only: dropWhile_eq_Nil_conv)
      have "last ?r \<in> set ?r" using False by (rule last_in_set)
      with all have "is_ws (last ?r)" by (rule bspec)
      with last_r "1.prems"(3) show False by (simp only: simp_thms)
    qed
    have hd': "\<not> is_ws (hd ?s')" using ne by (rule hd_dropWhile)
    have r: "takeWhile is_ws ?r @ ?s' = ?r" by (rule takeWhile_dropWhile_id)
    have "last (takeWhile is_ws ?r @ ?s') = last ?s'" using ne by (rule last_appendR)
    then have "last ?s' = last s" by (simp only: r last_r)
    with "1.prems"(3) have last': "\<not> is_ws (last ?s')" by simp
    from "1.prems"(4) eq have "p = ?w \<or> p \<in> set (split_ws ?s')" by simp
    then show ?thesis
    proof
      assume "p = ?w" with w show ?thesis by simp
    next
      assume 2: "p \<in> set (split_ws ?s')"
      from "1.IH"[OF refl refl False ne hd' last' 2] show ?thesis .
    qed
  qed
qed

lemma split_ws_ws_free: "p \<in> set (split_ws s) \<Longrightarrow> c \<in> set p \<Longrightarrow> \<not> is_ws c"
proof (induction s rule: split_ws.induct)
  case (1 s)
  let ?w = "takeWhile (\<lambda>c. \<not> is_ws c) s"
  let ?r = "dropWhile (\<lambda>c. \<not> is_ws c) s"
  have w: "c \<in> set ?w \<Longrightarrow> \<not> is_ws c" by (drule set_takeWhileD) simp
  show ?case
  proof (cases "?r = []")
    case True
    then have "split_ws s = [?w]" by (rule split_ws_unfold_last)
    with "1.prems" have "c \<in> set ?w" by simp
    then show ?thesis by (rule w)
  next
    case False
    then have eq: "split_ws s = ?w # split_ws (dropWhile is_ws ?r)"
      by (rule split_ws_unfold_more)
    from "1.prems"(1) eq have "p = ?w \<or> p \<in> set (split_ws (dropWhile is_ws ?r))" by simp
    then show ?thesis
    proof
      assume "p = ?w"
      with "1.prems"(2) have "c \<in> set ?w" by simp
      then show ?thesis by (rule w)
    next
      assume 2: "p \<in> set (split_ws (dropWhile is_ws ?r))"
      from "1.IH"[OF refl refl False 2 "1.prems"(2)] show ?thesis .
    qed
  qed
qed

lemma rev_drop_take: "rev (dropWhile P xs) @ rev (takeWhile P xs) = rev xs"
proof -
  have "rev (takeWhile P xs @ dropWhile P xs) = rev xs" by simp
  then show ?thesis by (simp only: rev_append)
qed

lemma trim_decompose:
  "s = takeWhile is_ws s @ trim s @ rev (takeWhile is_ws (rev (dropWhile is_ws s)))"
proof -
  let ?a = "dropWhile is_ws s"
  have "trim s @ rev (takeWhile is_ws (rev ?a)) = rev (rev ?a)"
    unfolding trim_def by (rule rev_drop_take)
  then have "trim s @ rev (takeWhile is_ws (rev ?a)) = ?a" by simp
  then have "takeWhile is_ws s @ trim s @ rev (takeWhile is_ws (rev ?a)) = takeWhile is_ws s @ ?a"
    by simp
  then show ?thesis by simp
qed

lemma trim_edges:
  assumes "trim s \<noteq> []"
  shows "\<not> is_ws (hd (trim s))" and "\<not> is_ws (last (trim s))"
proof -
  let ?a = "dropWhile is_ws s"
  let ?b = "dropWhile is_ws (rev ?a)"
  have t: "trim s = rev ?b" by (simp add: trim_def)
  with assms have b: "?b \<noteq> []" by simp
  then have hb: "\<not> is_ws (hd ?b)" by (rule hd_dropWhile)
  have "last (rev ?b) = hd ?b" by (rule last_rev)
  with hb show "\<not> is_ws (last (trim s))" by (simp only: t simp_thms)
  have a: "?a \<noteq> []"
  proof
    assume "?a = []"
    then have "?b = []" by (simp only: rev.simps dropWhile.simps)
    with b show False by (simp only: not_True_eq_False simp_thms)
  qed
  have "takeWhile is_ws (rev ?a) @ ?b = rev ?a" by (rule takeWhile_dropWhile_id)
  then have "last (rev ?a) = last (takeWhile is_ws (rev ?a) @ ?b)" by (simp only:)
  also have "\<dots> = last ?b" using b by (rule last_appendR)
  finally have "last ?b = last (rev ?a)" by (simp only:)
  also have "\<dots> = hd ?a" by (rule last_rev)
  finally have lb: "last ?b = hd ?a" .
  have ha: "\<not> is_ws (hd ?a)" using a by (rule hd_dropWhile)
  have "hd (rev ?b) = last ?b" by (rule hd_rev)
  with lb ha show "\<not> is_ws (hd (trim s))" by (simp only: t simp_thms)
qed

lemma trim_Nil_all_ws:
  assumes "trim s = []"
  shows "\<forall>c\<in>set s. is_ws c"
proof -
  have "s = takeWhile is_ws s @ trim s @ rev (takeWhile is_ws (rev (dropWhile is_ws s)))"
    by (rule trim_decompose)
  with assms have "s = takeWhile is_ws s @ rev (takeWhile is_ws (rev (dropWhile is_ws s)))"
    by simp
  then have "set s = set (takeWhile is_ws s) \<union> set (takeWhile is_ws (rev (dropWhile is_ws s)))"
    by (metis set_append set_rev)
  then show ?thesis by (auto dest: set_takeWhileD)
qed

lemma trim_append_ws:
  assumes "\<forall>c\<in>set ws. is_ws c"
  shows "trim (s @ ws) = trim s"
proof -
  have r: "dropWhile is_ws (rev (x @ ws)) = dropWhile is_ws (rev x)" for x
  proof -
    have "\<And>c. c \<in> set (rev ws) \<Longrightarrow> is_ws c" using assms by simp
    then have "dropWhile is_ws (rev ws @ rev x) = dropWhile is_ws (rev x)"
      by (rule dropWhile_append2)
    then show ?thesis by simp
  qed
  show ?thesis
  proof (cases "\<forall>c\<in>set s. is_ws c")
    case True
    then have a: "dropWhile is_ws (s @ ws) = []" and b: "dropWhile is_ws s = []"
      using assms by auto
    show ?thesis unfolding trim_def a b by simp
  next
    case False
    then obtain c where "c \<in> set s" and "\<not> is_ws c" by blast
    then have d: "dropWhile is_ws (s @ ws) = dropWhile is_ws s @ ws"
      by (rule dropWhile_append1)
    show ?thesis unfolding trim_def d r ..
  qed
qed

lemma set_join: "set (join sep ps) \<subseteq> set sep \<union> \<Union> (set ` set ps)"
  by (induction sep ps rule: join.induct) auto

lemma join_Nil: "join sep ps = [] \<Longrightarrow> ps = [] \<or> hd ps = []"
  by (induction sep ps rule: join.induct) auto

lemma join_space_ws:
  assumes "\<And>p c. p \<in> set ps \<Longrightarrow> c \<in> set p \<Longrightarrow> \<not> is_ws c"
    and "c \<in> set (join '' '' ps)" and "is_ws c"
  shows "c = CHR '' ''"
proof -
  from assms(2) set_join[of "'' ''" ps] have "c \<in> set '' '' \<or> (\<exists>p\<in>set ps. c \<in> set p)" by auto
  with assms(1,3) show ?thesis by auto
qed

lemma tl_parts_tokens:
  assumes "p \<in> set (tl (parts t))"
  shows "p \<noteq> []" and "c \<in> set p \<Longrightarrow> \<not> is_ws c"
proof -
  let ?cc = "commandContent t"
  from assms have tl_ne: "tl (split_ws ?cc) \<noteq> []" by (auto simp: parts_def)
  have p: "p \<in> set (split_ws ?cc)"
    using assms by (simp add: parts_def) (meson list.set_sel(2) split_ws_not_Nil)
  have cc: "?cc \<noteq> []"
  proof
    assume e: "?cc = []"
    have "split_ws [] = [[]]" by (simp add: split_ws_unfold_last)
    with e tl_ne show False by simp
  qed
  then have t: "trim (substring t 4) \<noteq> []" by (simp add: commandContent_def)
  have edges: "\<not> is_ws (hd ?cc)" "\<not> is_ws (last ?cc)"
    using trim_edges[OF t] by (simp_all add: commandContent_def)
  from cc edges p show "p \<noteq> []" by (rule split_ws_nonempty_pieces)
  show "c \<in> set p \<Longrightarrow> \<not> is_ws c" using p by (rule split_ws_ws_free)
qed

lemma command_content_not_empty:
  assumes "startsWith (trim b) ''/ai ''"
  shows "commandContent (trim b) \<noteq> []"
proof
  let ?t = "trim b"
  assume e: "commandContent ?t = []"
  from assms have "take (length ''/ai '') ?t = ''/ai ''" by (simp only: startsWith_def)
  moreover have "length ''/ai '' = 4" by simp
  ultimately have tk: "take 4 ?t = ''/ai ''" by (simp only:)
  then have ne: "?t \<noteq> []" by auto
  have split: "?t = take 4 ?t @ drop 4 ?t" by simp
  have last_nws: "\<not> is_ws (last ?t)" using ne by (rule trim_edges)
  from e have "trim (drop 4 ?t) = []" by (simp add: commandContent_def substring_def)
  then have all: "\<forall>c\<in>set (drop 4 ?t). is_ws c" by (rule trim_Nil_all_ws)
  show False
  proof (cases "drop 4 ?t = []")
    case True
    with split tk have "?t = ''/ai ''" by simp
    then have "last ?t = CHR '' ''" by simp
    with last_nws show False by (simp add: is_ws_def)
  next
    case False
    then have "last ?t = last (drop 4 ?t)" by (metis split last_appendR)
    moreover have "last (drop 4 ?t) \<in> set (drop 4 ?t)" using False by (rule last_in_set)
    ultimately show False using all last_nws by auto
  qed
qed

lemma empty_prompt_only_after_alias:
  assumes "startsWith (trim b) ''/ai ''" and "prompt (parseCommand m (trim b)) = []"
  shows "truthy (get_prop m (potentialAlias (trim b))) \<and> tl (parts (trim b)) = []"
proof (cases "truthy (get_prop m (potentialAlias (trim b)))")
  case False
  with assms(2) have "commandContent (trim b) = []" by (simp add: parseCommand_def)
  with command_content_not_empty[OF assms(1)] show ?thesis by simp
next
  case True
  with assms(2) have j: "join '' '' (tl (parts (trim b))) = []" by (simp add: parseCommand_def)
  have "tl (parts (trim b)) = []"
  proof (rule ccontr)
    assume ne: "tl (parts (trim b)) \<noteq> []"
    with join_Nil[OF j] have "hd (tl (parts (trim b))) = []" by simp
    moreover have "hd (tl (parts (trim b))) \<in> set (tl (parts (trim b)))" using ne by simp
    ultimately show False using tl_parts_tokens(1) by metis
  qed
  with True show ?thesis by simp
qed

section \<open>Facts about the comment store and the classification of comments\<close>

lemma fold_max_ge: "a \<le> fold max xs (a::int) \<and> (\<forall>x\<in>set xs. x \<le> fold max xs a)"
proof (induction xs arbitrary: a)
  case Nil
  show ?case by simp
next
  case (Cons x xs)
  from Cons.IH[of "max x a"] show ?case by auto
qed

lemma fresh_id_new: "fresh_id cs \<notin> set (map c_id cs)"
proof
  assume "fresh_id cs \<in> set (map c_id cs)"
  then have "fresh_id cs \<le> fold max (map c_id cs) 0" using fold_max_ge by blast
  then show False by (simp add: fresh_id_def)
qed

lemma updateComment_Inr:
  assumes "updateComment g i body = Inr g'"
  shows "gh_thread g' = map (\<lambda>c. if c_id c = i then c\<lparr>c_body := body\<rparr> else c) (gh_thread g)"
  using assms by (auto simp add: updateComment_def split: option.splits if_splits)

lemma conversationEntry_role:
  "role (conversationEntry c) =
     (if isUserPrompt c then UserPrompt else if isAIResponse c then Assistant else User)"
  by (simp add: conversationEntry_def)

lemma conversationEntry_plain:
  "\<not> isUserPrompt c \<Longrightarrow> \<not> isAIResponse c \<Longrightarrow> content (conversationEntry c) = c_body c"
  by (simp add: conversationEntry_def)

lemma conversationEntry_assistant:
  "\<not> isUserPrompt c \<Longrightarrow> isAIResponse c \<Longrightarrow>
   content (conversationEntry c) = trim (strip_marker (strip_mention (c_body c)))"
  by (simp add: conversationEntry_def)

lemma conversationEntry_user_prompt_no_leading_ws:
  assumes "isUserPrompt c" and "c_body c = [] \<or> \<not> is_ws (hd (c_body c))"
  shows "content (conversationEntry c) = commandContent (trim (c_body c))"
proof -
  let ?b = "c_body c"
  let ?tail = "rev (takeWhile is_ws (rev (dropWhile is_ws ?b)))"
  from assms(2) have lead: "takeWhile is_ws ?b = []" by (cases ?b) auto
  have "?b = takeWhile is_ws ?b @ trim ?b @ ?tail" by (rule trim_decompose)
  with lead have b: "?b = trim ?b @ ?tail" by simp
  have tail_ws: "\<forall>x\<in>set ?tail. is_ws x" by (auto dest: set_takeWhileD)
  from assms(1) have "take (length ''/ai '') (trim ?b) = ''/ai ''"
    by (simp only: isUserPrompt_def startsWith_def)
  then have "length ''/ai '' \<le> length (trim ?b)"
    by (metis length_take min.cobounded1)
  then have len: "4 \<le> length (trim ?b)" by simp
  have "drop 4 ?b = drop 4 (trim ?b @ ?tail)" using b by simp
  also have "\<dots> = drop 4 (trim ?b) @ ?tail" using len by simp
  finally have "trim (drop 4 ?b) = trim (drop 4 (trim ?b))"
    using tail_ws by (simp only: trim_append_ws)
  with assms(1) show ?thesis
    by (simp add: conversationEntry_def commandContent_def substring_def)
qed

lemma systemMessage_body:
  "\<exists>pre suf. systemMessage sp ctx = pre @ ''Body: '' @ ctx_body ctx @ suf"
proof -
  have "systemMessage sp ctx =
      (sp @ [CHR 0x0A, CHR 0x0A] @ ''--- Issue Context ---'' @ [CHR 0x0A] @
       ''Title: '' @ ctx_title ctx @ [CHR 0x0A]) @ ''Body: '' @ ctx_body ctx @
      ([CHR 0x0A, CHR 0x0A] @
     ''--- Conversation History ---'' @ [CHR 0x0A] @
     ''The following is a JSON array of the conversation history on this issue:'' @ [CHR 0x0A] @
     ''- '' @ json_string ''role'' @ '': '' @ json_string ''user'' @
       '' = regular user comment'' @ [CHR 0x0A] @
     ''- '' @ json_string ''role'' @ '': '' @ json_string ''user_prompt'' @
       '' = user'' @ [CHR 0x27] @ ''s AI prompt (started with /ai)'' @ [CHR 0x0A] @
     ''- '' @ json_string ''role'' @ '': '' @ json_string ''assistant'' @
       '' = your previous AI responses'' @ [CHR 0x0A, CHR 0x0A] @
     (if ctx_comments ctx = [] then ''[]'' else ctx_comments ctx) @
     [CHR 0x0A] @ ''--- End Context ---'')"
    unfolding systemMessage_def by (simp only: append_assoc)
  then show ?thesis by blast
qed

section \<open>Steps of main and of the script\<close>

lemma post_requests: "requests (snd (post body pid w)) = requests w"
  by (simp add: post_def split: prod.splits)

lemma post_None:
  "post body None w =
     (case createComment (store w) body of
        Inl e \<Rightarrow> (Inl e, w)
      | Inr g' \<Rightarrow> (Inr (), w\<lparr>store := g'\<rparr>))"
  by (simp add: post_def postCommentToIssue_def create_fallback_def split: sum.splits)

lemma main_skip: "\<not> startsWith (trim (commentBody env)) ''/ai '' \<Longrightarrow> main env w = (Inr (), w)"
  by (simp add: main_def)

lemma main_parsed:
  assumes "startsWith (trim (commentBody env)) ''/ai ''" and "loadModelMap env = Inr m"
  shows "main env w =
     (if \<not> truthy (modelIdentifier (parseCommand m (trim (commentBody env))))
      then post (no_model_message m) None w
      else if prompt (parseCommand m (trim (commentBody env))) = []
      then post (usage_message m) None w
      else generate env (parseCommand m (trim (commentBody env))) w)"
  using assms by (simp add: main_def Let_def)

lemma no_default_posts_notice:
  assumes "startsWith (trim (commentBody env)) ''/ai ''" and "loadModelMap env = Inr m"
    and "\<not> truthy (get_prop m (potentialAlias (trim (commentBody env))))"
    and "\<not> truthy (get_prop m ''default'')"
  shows "main env w = post (no_model_message m) None w"
    and "requests (snd (main env w)) = requests w"
proof -
  from assms(3,4) have "\<not> truthy (modelIdentifier (parseCommand m (trim (commentBody env))))"
    by (simp add: parseCommand_def)
  with main_parsed[OF assms(1,2)] show m: "main env w = post (no_model_message m) None w"
    by simp
  show "requests (snd (main env w)) = requests w" unfolding m by (rule post_requests)
qed

lemma getAiResponse_error_response:
  assumes "endpoint env \<lparr>system_content = trim (systemMessage sp ctx), user_content = p,
                         model = m\<rparr> = ErrorResponse msg"
  shows "getAiResponse env p ctx sp m w =
     (Inl \<lparr>message = ''AI API call failed: '' @ msg, status = None\<rparr>,
      w\<lparr>requests := requests w @
         [\<lparr>system_content = trim (systemMessage sp ctx), user_content = p, model = m\<rparr>]\<rparr>)"
  using assms by (simp add: getAiResponse_def Let_def)

lemma generate_error_response:
  assumes "getIssueContext (store w) = Inr ctx"
    and "endpoint env \<lparr>system_content = trim (systemMessage (getSystemPrompt env) ctx),
                       user_content = prompt cmd, model = modelIdentifier cmd\<rparr> = ErrorResponse msg"
  shows "generate env cmd w =
     (Inl \<lparr>message = ''AI API call failed: '' @ msg, status = None\<rparr>,
      w\<lparr>requests := requests w @
         [\<lparr>system_content = trim (systemMessage (getSystemPrompt env) ctx),
           user_content = prompt cmd, model = modelIdentifier cmd\<rparr>]\<rparr>)"
  using assms by (simp add: generate_def getAiResponse_def Let_def)

lemma generate_no_context:
  "getIssueContext (store w) = Inl e \<Longrightarrow> generate env cmd w = (Inl e, w)"
  by (simp add: generate_def)

lemma script_rejected:
  "config_valid env \<Longrightarrow> main env w = (Inl err, w') \<Longrightarrow> script env w = handler err w'"
  by (simp add: script_def)

lemma script_returned:
  "config_valid env \<Longrightarrow> main env w = (Inr u, w') \<Longrightarrow>
   script env w = \<lparr>final = w', unawaited = [], exit_code = 0\<rparr>"
  by (simp add: script_def)

section \<open>Evaluation of the sample inputs\<close>

lemmas string_eval =
  commandContent_def substring_def trim_def parts_def potentialAlias_def split_ws.simps
  is_ws_def toLowerCase_def toLowerCase_char_def upper_case_units_def lower_case_units_def
  Let_def

lemma parts_eval_1: "parts ''/ai gpt a  b'' = [''gpt'', ''a'', ''b'']"
  by (simp add: string_eval)

lemma alias_eval_1: "potentialAlias ''/ai gpt a  b'' = ''gpt''"
  by (simp add: potentialAlias_def parts_eval_1 toLowerCase_def toLowerCase_char_def upper_case_units_def lower_case_units_def)

lemma parts_alias_only: "parts ''/ai gpt'' = [''gpt'']"
  by (simp add: string_eval)

lemma trim_ai: "trim ''/ai'' = ''/ai''"
  by (simp add: trim_def is_ws_def)

lemma trim_ai_hello: "trim ''/ai hello'' = ''/ai hello''"
  by (simp add: trim_def is_ws_def)

lemma trim_ai_gpt: "trim ''/ai gpt'' = ''/ai gpt''"
  by (simp add: trim_def is_ws_def)

lemma parse_hello:
  "parseCommand example_map ''/ai hello'' =
     \<lparr>modelAlias = ''default'', modelIdentifier = Str ''openai/gpt-4o'', prompt = ''hello''\<rparr>"
  by (simp add: parseCommand_def string_eval get_prop_def example_map_def
      object_prototype_names_def)

lemma parse_alias_ws:
  "parseCommand example_map ''/ai gpt a  b'' =
     \<lparr>modelAlias = ''gpt'', modelIdentifier = Str ''openai/gpt-4o'', prompt = ''a b''\<rparr>"
  by (simp add: parseCommand_def string_eval get_prop_def example_map_def
      object_prototype_names_def)

lemma parse_plain_ws:
  "parseCommand example_map ''/ai what  now'' =
     \<lparr>modelAlias = ''default'', modelIdentifier = Str ''openai/gpt-4o'', prompt = ''what  now''\<rparr>"
  by (simp add: parseCommand_def string_eval get_prop_def example_map_def
      object_prototype_names_def)

lemma parse_upper_key:
  "parseCommand upper_key_map ''/ai GPT hello'' =
     \<lparr>modelAlias = ''default'', modelIdentifier = Str ''openai/gpt-4o'', prompt = ''GPT hello''\<rparr>"
  by (simp add: parseCommand_def string_eval get_prop_def upper_key_map_def
      object_prototype_names_def)

lemma alias_gpt_truthy: "truthy (get_prop example_map (potentialAlias ''/ai gpt a  b''))"
  by (simp add: alias_eval_1 get_prop_def example_map_def)

lemma alias_what_falsy: "\<not> truthy (get_prop example_map (potentialAlias ''/ai what  now''))"
  by (simp add: string_eval get_prop_def example_map_def object_prototype_names_def)

lemma alias_only_truthy: "truthy (get_prop example_map (potentialAlias ''/ai gpt''))"
  by (simp add: potentialAlias_def parts_alias_only get_prop_def example_map_def toLowerCase_def
      toLowerCase_char_def upper_case_units_def lower_case_units_def)

lemma map_of_gpt: "map_of example_map (potentialAlias ''/ai gpt a  b'') = Some ''openai/gpt-4o''"
  by (simp add: alias_eval_1 example_map_def)

lemma map_of_what:
  "map_of example_map (potentialAlias ''/ai what  now'') = None \<and>
   potentialAlias ''/ai what  now'' \<notin> set object_prototype_names"
  by (simp add: string_eval example_map_def object_prototype_names_def)

lemma config_valid_sample: "config_valid (sample_env (c # cs) m a)"
  by (simp add: config_valid_def sample_env_def ai_token_def or_else_def issueNumber_def
      parseInt_def is_ws_def is_digit_def digit_value_def)

lemma commentBody_sample: "commentBody (sample_env b m a) = b"
  by (simp add: commentBody_def sample_env_def)

lemma loadModelMap_sample: "loadModelMap (sample_env b m a) = Inr m"
  by (simp add: loadModelMap_def sample_env_def)

lemma endpoint_sample: "endpoint (sample_env b m a) q = a"
  by (simp add: sample_env_def always_def)

lemma getSystemPrompt_sample: "getSystemPrompt (sample_env b m a) = defaultPrompt"
  by (simp add: getSystemPrompt_def sample_env_def no_files_def)

lemma sample_store_fields:
  "gh_issue sample_store = Inr sample_issue" "i_body sample_issue = None"
  "gh_list_fault sample_store = None"
  by (simp_all add: sample_store_def sample_issue_def)

lemma same_thread: "gh_thread sample_store = gh_thread other_store"
  by (simp add: sample_store_def other_store_def)

lemma stores_differ: "sample_store \<noteq> other_store"
proof
  assume "sample_store = other_store"
  then have "gh_actor sample_store = gh_actor other_store" by simp
  then show False by (simp add: sample_store_def other_store_def)
qed

lemma getIssueContext_sample:
  "getIssueContext sample_store =
     Inr \<lparr>ctx_title = ''Build fails'', ctx_body = ''This issue has no description.'',
          ctx_comments = commentsText sample_thread\<rparr>"
  by (simp add: getIssueContext_def listComments_def sample_store_def issueBody_def
      sample_issue_def sample_thread_def)

lemma getIssueContext_other:
  "getIssueContext other_store =
     Inr \<lparr>ctx_title = ''Renamed'', ctx_body = ''Now with a description.'',
          ctx_comments = commentsText sample_thread\<rparr>"
  by (simp add: getIssueContext_def listComments_def other_store_def issueBody_def
      sample_thread_def)

lemma getIssueContext_missing: "getIssueContext missing_issue_store = Inl not_found"
  by (simp add: getIssueContext_def missing_issue_store_def)

lemma update_sample_12: "updateComment sample_store 12 ''answer'' = Inr updated_store"
  by (simp add: updateComment_def sample_store_def sample_thread_def updated_store_def)

lemma update_sample_99: "updateComment sample_store 99 ''answer'' = Inl not_found"
  by (simp add: updateComment_def sample_store_def sample_thread_def)

lemma create_sample: "createComment sample_store body = Inr (created_store body)"
  by (simp add: createComment_def sample_store_def sample_thread_def created_store_def
      new_comment_def fresh_id_def)

lemma main_rate_limited:
  "main (sample_env ''/ai hello'' example_map (ErrorResponse ''rate limited'')) sample_world =
     (Inl \<lparr>message = ''AI API call failed: rate limited'', status = None\<rparr>,
      sample_world\<lparr>requests :=
         [\<lparr>system_content = trim (systemMessage defaultPrompt
              \<lparr>ctx_title = ''Build fails'', ctx_body = ''This issue has no description.'',
               ctx_comments = commentsText sample_thread\<rparr>),
           user_content = ''hello'', model = Str ''openai/gpt-4o''\<rparr>]\<rparr>)"
proof -
  let ?env = "sample_env ''/ai hello'' example_map (ErrorResponse ''rate limited'')"
  have t: "trim (commentBody ?env) = ''/ai hello''"
    by (simp only: commentBody_sample trim_ai_hello)
  have sw: "startsWith (trim (commentBody ?env)) ''/ai ''"
    unfolding t by (simp add: startsWith_def)
  have ctx: "getIssueContext (store sample_world) = Inr \<lparr>ctx_title = ''Build fails'', ctx_body = ''This issue has no description.'',
               ctx_comments = commentsText sample_thread\<rparr>"
    by (simp add: sample_world_def getIssueContext_sample)
  have g: "generate ?env (parseCommand example_map ''/ai hello'') sample_world =
     (Inl \<lparr>message = ''AI API call failed: '' @ ''rate limited'', status = None\<rparr>,
      sample_world\<lparr>requests := requests sample_world @
         [\<lparr>system_content = trim (systemMessage (getSystemPrompt ?env) \<lparr>ctx_title = ''Build fails'', ctx_body = ''This issue has no description.'',
               ctx_comments = commentsText sample_thread\<rparr>),
           user_content = prompt (parseCommand example_map ''/ai hello''),
           model = modelIdentifier (parseCommand example_map ''/ai hello'')\<rparr>]\<rparr>)"
    by (rule generate_error_response[OF ctx]) (rule endpoint_sample)
  have "main ?env sample_world = generate ?env (parseCommand example_map ''/ai hello'') sample_world"
    by (simp add: main_parsed[OF sw loadModelMap_sample] t parse_hello)
  also note g
  finally show ?thesis
    by (simp add: parse_hello getSystemPrompt_sample sample_world_def)
qed

lemma main_missing_issue:
  "main (sample_env ''/ai hello'' example_map (Completion ''unused'')) missing_issue_world =
     (Inl not_found, missing_issue_world)"
proof -
  let ?env = "sample_env ''/ai hello'' example_map (Completion ''unused'')"
  have t: "trim (commentBody ?env) = ''/ai hello''"
    by (simp only: commentBody_sample trim_ai_hello)
  have sw: "startsWith (trim (commentBody ?env)) ''/ai ''"
    unfolding t by (simp add: startsWith_def)
  have "getIssueContext (store missing_issue_world) = Inl not_found"
    by (simp add: missing_issue_world_def getIssueContext_missing)
  then have g: "generate ?env (parseCommand example_map ''/ai hello'') missing_issue_world =
     (Inl not_found, missing_issue_world)"
    by (rule generate_no_context)
  have "main ?env missing_issue_world =
          generate ?env (parseCommand example_map ''/ai hello'') missing_issue_world"
    by (simp add: main_parsed[OF sw loadModelMap_sample] t parse_hello)
  with g show ?thesis by simp
qed

section \<open>The claims\<close>

text \<open>
  C1, as the spec words it, fails on the code. A comment whose trimmed text is the bare
  \<^verbatim>\<open>/ai\<close> does not start with \<^verbatim>\<open>/ai\<close> and a space, so the guard at
  the head of \<^verbatim>\<open>main\<close> returns at once: the run ends with status 0, the comment
  store is as it was and no request went to the model endpoint. No usage help is posted.
\<close>

theorem bare_marker_counterexample:
  "config_valid (sample_env ''/ai'' example_map (Completion ''unused'')) \<and>
   trim (commentBody (sample_env ''/ai'' example_map (Completion ''unused''))) = ''/ai'' \<and>
   script (sample_env ''/ai'' example_map (Completion ''unused'')) sample_world =
     \<lparr>final = sample_world, unawaited = [], exit_code = 0\<rparr>"
proof -
  let ?env = "sample_env ''/ai'' example_map (Completion ''unused'')"
  have t: "trim (commentBody ?env) = ''/ai''" by (simp only: commentBody_sample trim_ai)
  have "\<not> startsWith (trim (commentBody ?env)) ''/ai ''"
    unfolding t by (simp add: startsWith_def)
  then have "main ?env sample_world = (Inr (), sample_world)" by (rule main_skip)
  with config_valid_sample show ?thesis by (simp add: script_returned t)
qed

text \<open>
  C1, amended. A comment whose trimmed text is exactly \<^verbatim>\<open>/ai\<close> is skipped: no
  comment is posted, no backend call is made and the run ends with status 0. The usage
  help that lists the aliases is what \<^verbatim>\<open>main\<close> posts, with no backend call, for
  a command that consists of the marker and one token that is taken as an alias: it
  creates a new comment with the usage message, and when the store accepts it the thread
  grows by that comment.
\<close>

theorem bare_marker_skipped_alias_only_gets_help:
  "(config_valid env \<and> trim (commentBody env) = ''/ai'' \<longrightarrow>
      script env w = \<lparr>final = w, unawaited = [], exit_code = 0\<rparr>) \<and>
   (startsWith (trim (commentBody env)) ''/ai '' \<and> loadModelMap env = Inr modelMap \<and>
    truthy (get_prop modelMap (potentialAlias (trim (commentBody env)))) \<and>
    tl (parts (trim (commentBody env))) = [] \<longrightarrow>
      main env w = post (usage_message modelMap) None w \<and>
      requests (snd (main env w)) = requests w \<and>
      (createComment (store w) (usage_message modelMap) = Inr g' \<longrightarrow>
         main env w = (Inr (), w\<lparr>store := g'\<rparr>) \<and>
         gh_thread g' = gh_thread (store w) @ [new_comment (store w) (usage_message modelMap)]))"
proof (intro conjI impI)
  assume a: "config_valid env \<and> trim (commentBody env) = ''/ai''"
  then have "\<not> startsWith (trim (commentBody env)) ''/ai ''" by (simp add: startsWith_def)
  then have "main env w = (Inr (), w)" by (rule main_skip)
  with a show "script env w = \<lparr>final = w, unawaited = [], exit_code = 0\<rparr>"
    by (simp add: script_returned)
next
  assume a: "startsWith (trim (commentBody env)) ''/ai '' \<and> loadModelMap env = Inr modelMap \<and>
    truthy (get_prop modelMap (potentialAlias (trim (commentBody env)))) \<and>
    tl (parts (trim (commentBody env))) = []"
  then have p: "parseCommand modelMap (trim (commentBody env)) =
     \<lparr>modelAlias = potentialAlias (trim (commentBody env)),
      modelIdentifier = get_prop modelMap (potentialAlias (trim (commentBody env))),
      prompt = []\<rparr>"
    by (simp add: parseCommand_def)
  from a have "main env w =
     (if \<not> truthy (modelIdentifier (parseCommand modelMap (trim (commentBody env))))
      then post (no_model_message modelMap) None w
      else if prompt (parseCommand modelMap (trim (commentBody env))) = []
      then post (usage_message modelMap) None w
      else generate env (parseCommand modelMap (trim (commentBody env))) w)"
    by (simp add: main_parsed)
  with a show m: "main env w = post (usage_message modelMap) None w" by (simp add: p)
  show "requests (snd (main env w)) = requests w" unfolding m by (rule post_requests)
  {
    assume c: "createComment (store w) (usage_message modelMap) = Inr g'"
    then show "main env w = (Inr (), w\<lparr>store := g'\<rparr>)" unfolding m by (simp add: post_None)
    from c show "gh_thread g' = gh_thread (store w) @ [new_comment (store w) (usage_message modelMap)]"
      by (auto simp add: createComment_def split: option.splits)
  }
qed

theorem bare_marker_skipped_alias_only_gets_help_witness:
  "script (sample_env ''/ai'' example_map (Completion ''unused'')) sample_world =
     \<lparr>final = sample_world, unawaited = [], exit_code = 0\<rparr> \<and>
   main (sample_env ''/ai gpt'' example_map (Completion ''unused'')) sample_world =
     (Inr (), sample_world\<lparr>store := created_store (usage_message example_map)\<rparr>) \<and>
   requests (snd (main (sample_env ''/ai gpt'' example_map (Completion ''unused'')) sample_world)) =
     requests sample_world"
proof -
  let ?e1 = "sample_env ''/ai'' example_map (Completion ''unused'')"
  let ?e2 = "sample_env ''/ai gpt'' example_map (Completion ''unused'')"
  have 1: "config_valid ?e1 \<and> trim (commentBody ?e1) = ''/ai''"
    by (simp add: config_valid_sample commentBody_sample trim_ai)
  have t2: "trim (commentBody ?e2) = ''/ai gpt''"
    by (simp only: commentBody_sample trim_ai_gpt)
  have 2: "startsWith (trim (commentBody ?e2)) ''/ai '' \<and> loadModelMap ?e2 = Inr example_map \<and>
    truthy (get_prop example_map (potentialAlias (trim (commentBody ?e2)))) \<and>
    tl (parts (trim (commentBody ?e2))) = []"
    unfolding t2 by (simp add: startsWith_def loadModelMap_sample alias_only_truthy parts_alias_only)
  have 3: "createComment (store sample_world) (usage_message example_map) =
             Inr (created_store (usage_message example_map))"
    by (simp add: sample_world_def create_sample)
  from bare_marker_skipped_alias_only_gets_help
         [of ?e1 sample_world example_map "created_store (usage_message example_map)"] 1
  have a: "script ?e1 sample_world = \<lparr>final = sample_world, unawaited = [], exit_code = 0\<rparr>"
    by blast
  from bare_marker_skipped_alias_only_gets_help
         [of ?e2 sample_world example_map "created_store (usage_message example_map)"] 2 3
  have b: "main ?e2 sample_world =
            (Inr (), sample_world\<lparr>store := created_store (usage_message example_map)\<rparr>) \<and>
           requests (snd (main ?e2 sample_world)) = requests sample_world"
    by blast
  from a b show ?thesis by blast
qed

text \<open>
  C2. A comment whose body starts with white space before the marker is classified as a
  user prompt by its trimmed text, but its content is cut from the untrimmed body:
  \<^verbatim>\<open>substring(4)\<close> removes the two spaces and \<^verbatim>\<open>/a\<close>, and leaves
  \<^verbatim>\<open>i hello\<close> where the text with the marker removed is \<^verbatim>\<open>hello\<close>
  (as \<^verbatim>\<open>main\<close> computes it for the same body).
\<close>

theorem user_prompt_content_cut_from_untrimmed_body:
  "isUserPrompt \<lparr>c_id = 21, c_login = ''bob'', c_created_at = ''2025-01-02T09:00:00Z'',
                 c_body = ''  /ai hello''\<rparr> \<and>
   conversationEntry \<lparr>c_id = 21, c_login = ''bob'', c_created_at = ''2025-01-02T09:00:00Z'',
                      c_body = ''  /ai hello''\<rparr> =
     \<lparr>role = UserPrompt, author = ''bob'', timestamp = ''2025-01-02T09:00:00Z'',
      content = ''i hello''\<rparr> \<and>
   commandContent (trim ''  /ai hello'') = ''hello''"
  by (simp add: conversationEntry_def isUserPrompt_def startsWith_def commandContent_def
      substring_def trim_def is_ws_def)

text \<open>
  C3. The first token \<^verbatim>\<open>constructor\<close> is not a key of the table, so the claim
  asks for the alias \<^verbatim>\<open>default\<close> and the prompt
  \<^verbatim>\<open>constructor hello\<close>. The code reads \<^verbatim>\<open>modelMap["constructor"]\<close>,
  finds the function that every object inherits, takes it for a model identifier and
  drops the token from the prompt.
\<close>

theorem inherited_name_taken_as_alias:
  "map_of default_only_map ''constructor'' = None \<and>
   hd (parts ''/ai constructor hello'') = ''constructor'' \<and>
   parseCommand default_only_map ''/ai constructor hello'' =
     \<lparr>modelAlias = ''constructor'', modelIdentifier = Inherited ''constructor'',
      prompt = ''hello''\<rparr>"
  by (simp add: parseCommand_def string_eval get_prop_def default_only_map_def
      object_prototype_names_def)

text \<open>
  C4. The serialized conversation history is a function of the comment list alone: two
  runs of \<^verbatim>\<open>getIssueContext\<close> against stores with the same thread, whatever
  else differs between them (issue title and body, the store's clock, the acting login,
  faults of other requests), return the same history text, the serialization of the
  classified first page of the thread.
\<close>

theorem history_depends_only_on_comments:
  assumes "getIssueContext g1 = Inr c1" and "getIssueContext g2 = Inr c2"
    and "gh_thread g1 = gh_thread g2"
  shows "ctx_comments c1 = ctx_comments c2 \<and>
         ctx_comments c1 = commentsText (take 30 (gh_thread g1))"
  using assms
  by (auto simp add: getIssueContext_def listComments_def split: sum.splits option.splits)

theorem history_depends_only_on_comments_witness:
  "sample_store \<noteq> other_store \<and> gh_thread sample_store = gh_thread other_store \<and>
   getIssueContext sample_store =
     Inr \<lparr>ctx_title = ''Build fails'', ctx_body = ''This issue has no description.'',
          ctx_comments = commentsText sample_thread\<rparr> \<and>
   getIssueContext other_store =
     Inr \<lparr>ctx_title = ''Renamed'', ctx_body = ''Now with a description.'',
          ctx_comments = commentsText sample_thread\<rparr> \<and>
   ctx_comments \<lparr>ctx_title = ''Build fails'', ctx_body = ''This issue has no description.'',
          ctx_comments = commentsText sample_thread\<rparr> =
   ctx_comments \<lparr>ctx_title = ''Renamed'', ctx_body = ''Now with a description.'',
          ctx_comments = commentsText sample_thread\<rparr>"
  using history_depends_only_on_comments
          [OF getIssueContext_sample getIssueContext_other same_thread]
        stores_differ same_thread getIssueContext_sample getIssueContext_other
  by simp

text \<open>
  C5. With a comment id (other than 0, which the code's test takes for none) whose update
  succeeds, \<^verbatim>\<open>postCommentToIssue\<close> returns with the updated store: the thread
  has the same comments with the same ids, the one with that id now has the new body and
  every other comment is as it was. With an id whose update fails, for whatever error,
  and with no id, it goes on to create a comment with the same body; when the store
  accepts the create, the thread is the old one followed by one new comment with that
  body and an id no comment had.
\<close>

theorem publish_update_or_create:
  "(i \<noteq> 0 \<and> updateComment g i body = Inr g' \<longrightarrow>
      postCommentToIssue body (Some i) g = (Inr (), g') \<and>
      length (gh_thread g') = length (gh_thread g) \<and>
      map c_id (gh_thread g') = map c_id (gh_thread g) \<and>
      (\<forall>k<length (gh_thread g).
         (c_id (gh_thread g ! k) = i \<longrightarrow> c_body (gh_thread g' ! k) = body) \<and>
         (c_id (gh_thread g ! k) \<noteq> i \<longrightarrow> gh_thread g' ! k = gh_thread g ! k))) \<and>
   (i \<noteq> 0 \<and> updateComment g i body = Inl e \<longrightarrow>
      postCommentToIssue body (Some i) g = create_fallback body g) \<and>
   postCommentToIssue body None g = create_fallback body g \<and>
   (createComment g body = Inr g'' \<longrightarrow>
      create_fallback body g = (Inr (), g'') \<and>
      gh_thread g'' = gh_thread g @ [new_comment g body] \<and>
      c_body (new_comment g body) = body \<and>
      c_id (new_comment g body) \<notin> set (map c_id (gh_thread g)))"
proof (intro conjI impI)
  assume a: "i \<noteq> 0 \<and> updateComment g i body = Inr g'"
  then show "postCommentToIssue body (Some i) g = (Inr (), g')"
    by (simp add: postCommentToIssue_def)
  from a have t: "gh_thread g' = map (\<lambda>c. if c_id c = i then c\<lparr>c_body := body\<rparr> else c) (gh_thread g)"
    by (simp add: updateComment_Inr)
  show "length (gh_thread g') = length (gh_thread g)" by (simp add: t)
  show "map c_id (gh_thread g') = map c_id (gh_thread g)"
    unfolding t by (induction "gh_thread g") auto
  show "\<forall>k<length (gh_thread g).
         (c_id (gh_thread g ! k) = i \<longrightarrow> c_body (gh_thread g' ! k) = body) \<and>
         (c_id (gh_thread g ! k) \<noteq> i \<longrightarrow> gh_thread g' ! k = gh_thread g ! k)"
    by (simp add: t)
next
  assume "i \<noteq> 0 \<and> updateComment g i body = Inl e"
  then show "postCommentToIssue body (Some i) g = create_fallback body g"
    by (simp add: postCommentToIssue_def)
next
  show "postCommentToIssue body None g = create_fallback body g"
    by (simp add: postCommentToIssue_def)
next
  assume c: "createComment g body = Inr g''"
  then show "create_fallback body g = (Inr (), g'')" by (simp add: create_fallback_def)
  from c show "gh_thread g'' = gh_thread g @ [new_comment g body]"
    by (auto simp add: createComment_def split: option.splits)
  show "c_body (new_comment g body) = body" by (simp add: new_comment_def)
  show "c_id (new_comment g body) \<notin> set (map c_id (gh_thread g))"
    using fresh_id_new[of "gh_thread g"] by (simp add: new_comment_def)
qed

theorem publish_update_or_create_witness:
  "updateComment sample_store 12 ''answer'' = Inr updated_store \<and>
   postCommentToIssue ''answer'' (Some 12) sample_store = (Inr (), updated_store) \<and>
   length (gh_thread updated_store) = length (gh_thread sample_store) \<and>
   updateComment sample_store 99 ''answer'' = Inl not_found \<and>
   postCommentToIssue ''answer'' (Some 99) sample_store = create_fallback ''answer'' sample_store \<and>
   postCommentToIssue ''answer'' None sample_store = create_fallback ''answer'' sample_store \<and>
   createComment sample_store ''answer'' = Inr (created_store ''answer'') \<and>
   create_fallback ''answer'' sample_store = (Inr (), created_store ''answer'')"
  using publish_update_or_create
          [of 12 sample_store "''answer''" updated_store not_found "created_store ''answer''"]
        publish_update_or_create
          [of 99 sample_store "''answer''" updated_store not_found "created_store ''answer''"]
        update_sample_12 update_sample_99 create_sample[of "''answer''"]
  by simp

text \<open>
  C6. The backend answers the one request of the run with the error message
  \<^verbatim>\<open>rate limited\<close>. The generation call throws an error that carries the
  message, \<^verbatim>\<open>main\<close> rejects with it after that single request, and the handler
  starts the post of the caution comment with it and exits with status 1. The post is
  not awaited and the process ends first: the comment store is as it was, with the two
  comments of the thread and no caution comment, where the claim has a posted comment.
\<close>

theorem rate_limited_caution_is_started_but_never_posted:
  "fst (main (sample_env ''/ai hello'' example_map (ErrorResponse ''rate limited'')) sample_world) =
     Inl \<lparr>message = ''AI API call failed: rate limited'', status = None\<rparr> \<and>
   length (requests (final (script (sample_env ''/ai hello'' example_map
                                     (ErrorResponse ''rate limited'')) sample_world))) = 1 \<and>
   unawaited (script (sample_env ''/ai hello'' example_map (ErrorResponse ''rate limited''))
                sample_world) =
     [caution_message \<lparr>message = ''AI API call failed: rate limited'', status = None\<rparr>] \<and>
   store (final (script (sample_env ''/ai hello'' example_map (ErrorResponse ''rate limited''))
                   sample_world)) = sample_store \<and>
   gh_thread sample_store = sample_thread \<and>
   exit_code (script (sample_env ''/ai hello'' example_map (ErrorResponse ''rate limited''))
                sample_world) = 1"
proof -
  let ?env = "sample_env ''/ai hello'' example_map (ErrorResponse ''rate limited'')"
  have v: "config_valid ?env" by (rule config_valid_sample)
  note m = main_rate_limited
  note s = script_rejected[OF v m]
  have 1: "fst (main ?env sample_world) =
             Inl \<lparr>message = ''AI API call failed: rate limited'', status = None\<rparr>"
    unfolding m by simp
  have 2: "length (requests (final (script ?env sample_world))) = 1"
    unfolding s by (simp add: handler_def)
  have 3: "unawaited (script ?env sample_world) =
     [caution_message \<lparr>message = ''AI API call failed: rate limited'', status = None\<rparr>]"
    unfolding s by (simp add: handler_def)
  have 4: "store (final (script ?env sample_world)) = sample_store"
    unfolding s by (simp add: handler_def sample_world_def)
  have 5: "gh_thread sample_store = sample_thread" by (simp add: sample_store_def)
  have 6: "exit_code (script ?env sample_world) = 1"
    unfolding s by (simp add: handler_def)
  from 1 2 3 4 5 6 show ?thesis by blast
qed

text \<open>
  C7, as the spec words it, fails on the code. Fetching the issue fails with status 404,
  \<^verbatim>\<open>main\<close> rejects with that error, and the handler, which tests for this
  status, starts no post at all before it exits with status 1.
\<close>

theorem no_notice_for_404_counterexample:
  "config_valid (sample_env ''/ai hello'' example_map (Completion ''unused'')) \<and>
   main (sample_env ''/ai hello'' example_map (Completion ''unused'')) missing_issue_world =
     (Inl not_found, missing_issue_world) \<and>
   script (sample_env ''/ai hello'' example_map (Completion ''unused'')) missing_issue_world =
     \<lparr>final = missing_issue_world, unawaited = [], exit_code = 1\<rparr>"
proof -
  let ?env = "sample_env ''/ai hello'' example_map (Completion ''unused'')"
  have v: "config_valid ?env" by (rule config_valid_sample)
  from script_rejected[OF v main_missing_issue] v main_missing_issue show ?thesis
    by (simp add: handler_def not_found_def)
qed

text \<open>
  C7, amended. When \<^verbatim>\<open>main\<close> rejects with an error, the run ends with exit
  status 1. If the error's status is not 404, the handler has started exactly one post
  before that, of the caution message, which quotes the error's message between back
  quotes; nothing is posted a second time. If the status is 404 the handler starts no
  post.
\<close>

theorem handler_starts_one_caution_post_unless_404:
  assumes "config_valid env" and "main env w = (Inl err, w')"
  shows "exit_code (script env w) = 1 \<and>
         (status err \<noteq> Some 404 \<longrightarrow>
            unawaited (script env w) = [caution_message err] \<and>
            (\<exists>pre. caution_message err = pre @ ''`'' @ message err @ ''`'')) \<and>
         (status err = Some 404 \<longrightarrow> unawaited (script env w) = [])"
proof -
  have s: "script env w = handler err w'" using assms by (rule script_rejected)
  have "caution_message err =
      (''> [!CAUTION]'' @ [CHR 0x0A] @
       ''> Sorry, I encountered an error and could not process your request:'' @ [CHR 0x0A] @
       ''> '') @ ''`'' @ message err @ ''`''"
    by (simp add: caution_message_def)
  then have "\<exists>pre. caution_message err = pre @ ''`'' @ message err @ ''`''" by blast
  then show ?thesis by (simp add: s handler_def)
qed

theorem handler_starts_one_caution_post_unless_404_witness:
  "config_valid (sample_env ''/ai hello'' example_map (ErrorResponse ''rate limited'')) \<and>
   exit_code (script (sample_env ''/ai hello'' example_map (ErrorResponse ''rate limited''))
                sample_world) = 1 \<and>
   unawaited (script (sample_env ''/ai hello'' example_map (ErrorResponse ''rate limited''))
                sample_world) =
     [caution_message \<lparr>message = ''AI API call failed: rate limited'', status = None\<rparr>] \<and>
   exit_code (script (sample_env ''/ai hello'' example_map (Completion ''unused''))
                missing_issue_world) = 1 \<and>
   unawaited (script (sample_env ''/ai hello'' example_map (Completion ''unused''))
                missing_issue_world) = []"
  using handler_starts_one_caution_post_unless_404[OF config_valid_sample main_rate_limited]
        handler_starts_one_caution_post_unless_404[OF config_valid_sample main_missing_issue]
        config_valid_sample[of "CHR ''/''" "''ai hello''" example_map "ErrorResponse ''rate limited''"]
  by (simp add: not_found_def)

text \<open>
  C8, as the spec words it, fails on the code. In \<^verbatim>\<open>/ai gpt a  b\<close> the first
  token matches the alias \<^verbatim>\<open>gpt\<close>, yet the prompt is not the remainder of the
  text (two spaces between the words) but its tokens joined by one space. And with a
  table whose key is \<^verbatim>\<open>GPT\<close>, the token \<^verbatim>\<open>GPT\<close> matches that key
  exactly, yet the code looks up the lower-cased token and falls to the default.
\<close>

theorem alias_prompt_counterexample:
  "spec_alias_match example_map (hd (parts ''/ai gpt a  b'')) \<and>
   spec_remainder ''/ai gpt a  b'' = ''a  b'' \<and>
   prompt (parseCommand example_map ''/ai gpt a  b'') = ''a b'' \<and>
   prompt (parseCommand example_map ''/ai gpt a  b'') \<noteq> spec_remainder ''/ai gpt a  b'' \<and>
   hd (parts ''/ai GPT hello'') = ''GPT'' \<and>
   spec_alias_match upper_key_map (hd (parts ''/ai GPT hello'')) \<and>
   modelAlias (parseCommand upper_key_map ''/ai GPT hello'') = ''default'' \<and>
   prompt (parseCommand upper_key_map ''/ai GPT hello'') = ''GPT hello''"
proof -
  have 1: "spec_alias_match example_map (hd (parts ''/ai gpt a  b''))"
    by (simp add: parts_eval_1 spec_alias_match_def example_map_def toLowerCase_def
        toLowerCase_char_def upper_case_units_def lower_case_units_def)
  have 2: "spec_remainder ''/ai gpt a  b'' = ''a  b''"
    by (simp add: spec_remainder_def commandContent_def substring_def trim_def is_ws_def)
  have 3: "parts ''/ai GPT hello'' = [''GPT'', ''hello'']"
    by (simp add: string_eval)
  have 4: "spec_alias_match upper_key_map ''GPT''"
    by (simp add: spec_alias_match_def upper_key_map_def)
  show ?thesis
    by (simp add: 1 2 3 4 parse_alias_ws parse_upper_key)
qed

text \<open>
  C8, amended. The code lower-cases the first token and reads the table under that
  name. If the table has the lower-cased token as a key with a non-empty identifier,
  the lower-cased token is the alias, that identifier the model, and the prompt is the
  remaining tokens joined by single spaces. If the table has it as a key with an empty
  identifier, or has no such key and the name is not one that every object inherits from
  \<^verbatim>\<open>Object.prototype\<close>, the alias is \<^verbatim>\<open>default\<close>, the model is the
  table's entry under \<^verbatim>\<open>default\<close>, and the prompt is the whole command
  text after the marker.
\<close>

theorem parse_by_lowercased_first_token:
  "(map_of modelMap (potentialAlias commentText) = Some v \<and> v \<noteq> [] \<longrightarrow>
      parseCommand modelMap commentText =
        \<lparr>modelAlias = potentialAlias commentText, modelIdentifier = Str v,
         prompt = join '' '' (tl (parts commentText))\<rparr>) \<and>
   (map_of modelMap (potentialAlias commentText) = Some [] \<or>
    map_of modelMap (potentialAlias commentText) = None \<and>
    potentialAlias commentText \<notin> set object_prototype_names \<longrightarrow>
      parseCommand modelMap commentText =
        \<lparr>modelAlias = ''default'', modelIdentifier = get_prop modelMap ''default'',
         prompt = commandContent commentText\<rparr>)"
  by (auto simp add: parseCommand_def get_prop_def)

theorem parse_by_lowercased_first_token_witness:
  "map_of example_map (potentialAlias ''/ai gpt a  b'') = Some ''openai/gpt-4o'' \<and>
   parseCommand example_map ''/ai gpt a  b'' =
     \<lparr>modelAlias = potentialAlias ''/ai gpt a  b'', modelIdentifier = Str ''openai/gpt-4o'',
      prompt = join '' '' (tl (parts ''/ai gpt a  b''))\<rparr> \<and>
   map_of example_map (potentialAlias ''/ai what  now'') = None \<and>
   potentialAlias ''/ai what  now'' \<notin> set object_prototype_names \<and>
   parseCommand example_map ''/ai what  now'' =
     \<lparr>modelAlias = ''default'', modelIdentifier = get_prop example_map ''default'',
      prompt = commandContent ''/ai what  now''\<rparr>"
  using parse_by_lowercased_first_token[of example_map "''/ai gpt a  b''" "''openai/gpt-4o''"]
        parse_by_lowercased_first_token[of example_map "''/ai what  now''" "[]"]
        map_of_gpt map_of_what
  by simp

text \<open>
  C9. When the fetched issue has no body (\<^verbatim>\<open>null\<close>) or an empty one, and
  the comments can be listed, the context that \<^verbatim>\<open>getIssueContext\<close> returns has
  the body \<^verbatim>\<open>This issue has no description.\<close>, and that text stands behind
  \<^verbatim>\<open>Body:\<close> in the system message built from the context.
\<close>

theorem missing_body_placeholder:
  assumes "gh_issue g = Inr i" and "i_body i = None \<or> i_body i = Some []"
    and "gh_list_fault g = None"
  shows "\<exists>ctx. getIssueContext g = Inr ctx \<and>
           ctx_body ctx = ''This issue has no description.'' \<and>
           (\<exists>pre suf. systemMessage systemPrompt ctx =
              pre @ ''Body: This issue has no description.'' @ suf)"
proof -
  let ?ctx = "\<lparr>ctx_title = i_title i, ctx_body = ''This issue has no description.'',
               ctx_comments = commentsText (take 30 (gh_thread g))\<rparr>"
  from assms(2) have b: "issueBody i = ''This issue has no description.''"
    by (auto simp add: issueBody_def)
  have c: "getIssueContext g = Inr ?ctx"
    using assms(1,3) b by (simp add: getIssueContext_def listComments_def)
  have "\<exists>pre suf. systemMessage systemPrompt ?ctx = pre @ ''Body: '' @ ctx_body ?ctx @ suf"
    by (rule systemMessage_body)
  then have "\<exists>pre suf. systemMessage systemPrompt ?ctx =
               pre @ ''Body: This issue has no description.'' @ suf"
    by simp
  with c show ?thesis by simp
qed

theorem missing_body_placeholder_witness:
  "gh_issue sample_store = Inr sample_issue \<and> i_body sample_issue = None \<and>
   gh_list_fault sample_store = None \<and>
   (\<exists>ctx. getIssueContext sample_store = Inr ctx \<and>
      ctx_body ctx = ''This issue has no description.'' \<and>
      (\<exists>pre suf. systemMessage defaultPrompt ctx =
         pre @ ''Body: This issue has no description.'' @ suf))"
  using missing_body_placeholder[of sample_store sample_issue defaultPrompt]
  by (simp only: sample_store_fields simp_thms)

text \<open>
  C10. When the first token is taken as an alias, the prompt is the remaining tokens
  joined by single spaces: every token is non-empty and free of white space, so the only
  white space left in the prompt is a single space between two tokens. When no alias is
  taken, the prompt is the command text after the marker, trimmed at both ends and
  otherwise as typed: what is cut off in front and behind is white space only.
\<close>

theorem prompt_whitespace:
  "(truthy (get_prop modelMap (potentialAlias commentText)) \<longrightarrow>
      prompt (parseCommand modelMap commentText) = join '' '' (tl (parts commentText)) \<and>
      (\<forall>p\<in>set (tl (parts commentText)). p \<noteq> [] \<and> (\<forall>c\<in>set p. \<not> is_ws c)) \<and>
      (\<forall>c\<in>set (prompt (parseCommand modelMap commentText)). is_ws c \<longrightarrow> c = CHR '' '')) \<and>
   (\<not> truthy (get_prop modelMap (potentialAlias commentText)) \<longrightarrow>
      prompt (parseCommand modelMap commentText) = trim (substring commentText 4) \<and>
      (\<exists>pre suf. substring commentText 4 = pre @ prompt (parseCommand modelMap commentText) @ suf \<and>
         (\<forall>c\<in>set pre. is_ws c) \<and> (\<forall>c\<in>set suf. is_ws c)))"
proof (intro conjI impI)
  assume a: "truthy (get_prop modelMap (potentialAlias commentText))"
  then show eq: "prompt (parseCommand modelMap commentText) = join '' '' (tl (parts commentText))"
    by (simp add: parseCommand_def)
  show tok: "\<forall>p\<in>set (tl (parts commentText)). p \<noteq> [] \<and> (\<forall>c\<in>set p. \<not> is_ws c)"
    using tl_parts_tokens by blast
  show "\<forall>c\<in>set (prompt (parseCommand modelMap commentText)). is_ws c \<longrightarrow> c = CHR '' ''"
    unfolding eq using tok join_space_ws by blast
next
  assume a: "\<not> truthy (get_prop modelMap (potentialAlias commentText))"
  then show eq: "prompt (parseCommand modelMap commentText) = trim (substring commentText 4)"
    by (simp add: parseCommand_def commandContent_def)
  let ?s = "substring commentText 4"
  have "?s = takeWhile is_ws ?s @ trim ?s @ rev (takeWhile is_ws (rev (dropWhile is_ws ?s)))"
    by (rule trim_decompose)
  moreover have "\<forall>c\<in>set (takeWhile is_ws ?s). is_ws c" by (auto dest: set_takeWhileD)
  moreover have "\<forall>c\<in>set (rev (takeWhile is_ws (rev (dropWhile is_ws ?s)))). is_ws c"
    by (auto dest: set_takeWhileD)
  ultimately show "\<exists>pre suf. ?s = pre @ prompt (parseCommand modelMap commentText) @ suf \<and>
         (\<forall>c\<in>set pre. is_ws c) \<and> (\<forall>c\<in>set suf. is_ws c)"
    unfolding eq by blast
qed

theorem prompt_whitespace_witness:
  "truthy (get_prop example_map (potentialAlias ''/ai gpt a  b'')) \<and>
   prompt (parseCommand example_map ''/ai gpt a  b'') = join '' '' (tl (parts ''/ai gpt a  b'')) \<and>
   prompt (parseCommand example_map ''/ai gpt a  b'') = ''a b'' \<and>
   \<not> truthy (get_prop example_map (potentialAlias ''/ai what  now'')) \<and>
   prompt (parseCommand example_map ''/ai what  now'') = trim (substring ''/ai what  now'' 4) \<and>
   prompt (parseCommand example_map ''/ai what  now'') = ''what  now''"
  using prompt_whitespace[of example_map "''/ai gpt a  b''"]
        prompt_whitespace[of example_map "''/ai what  now''"]
        alias_gpt_truthy alias_what_falsy
  by (simp add: parse_alias_ws parse_plain_ws)

end
